theory Spec2Isabelle
  imports Main "HOL-Library.Sublist"
begin

section \<open>Python values the engine relies on\<close>

text \<open>
  Exceptions are values: every operation that can raise returns \<open>error + 'a\<close>, with
  \<open>Inl\<close> for the exception. \<open>ActionFailure\<close> stands for whatever an Action raises.
\<close>

datatype error = IndexError | ValueError | AttributeError | ActionFailure string

text \<open>
  A Python \<open>str\<close> is a sequence of code points. It is modelled as a \<open>string\<close> whose
  characters stand for the code points 0..255 (ASCII and Latin-1); text with other code
  points is outside the model.

  \<open>str.lower()\<close> on these code points moves \<open>A..Z\<close> and the Latin-1 capitals
  (0xC0..0xDE without the multiplication sign 0xD7) up by 32 and leaves the rest alone.
\<close>

definition lower_char :: "char \<Rightarrow> char" where
  "lower_char c =
     (let n = (of_char c :: nat)
      in if (65 \<le> n \<and> n \<le> 90) \<or> (192 \<le> n \<and> n \<le> 222 \<and> n \<noteq> 215)
         then char_of (n + 32) else c)"

definition str_lower :: "string \<Rightarrow> string" where
  "str_lower s = map lower_char s"

text \<open>
  \<open>str.isdigit()\<close>: true for a non-empty string of digit characters. Among the code
  points 0..255 the digit characters are \<open>0..9\<close> and the superscripts two, three and one
  (0xB2, 0xB3, 0xB9). Only \<open>0..9\<close> are decimal characters.
\<close>

definition isdecimal_char :: "char \<Rightarrow> bool" where
  "isdecimal_char c = (48 \<le> (of_char c :: nat) \<and> (of_char c :: nat) \<le> 57)"

definition isdigit_char :: "char \<Rightarrow> bool" where
  "isdigit_char c =
     (isdecimal_char c \<or> (of_char c :: nat) = 178 \<or> (of_char c :: nat) = 179
        \<or> (of_char c :: nat) = 185)"

definition str_isdigit :: "string \<Rightarrow> bool" where
  "str_isdigit s = (s \<noteq> [] \<and> list_all isdigit_char s)"

text \<open>
  \<open>int(s)\<close> as \<open>Role._think\<close> uses it: the argument is either the literal \<open>"0"\<close> or a
  string that passed \<open>isdigit()\<close>, so signs, blanks and underscores never reach it. A
  non-empty string of decimal characters is read in base 10 (leading zeros allowed);
  anything else, a superscript digit included, raises \<open>ValueError\<close>. The interpreter's
  optional cap on the number of digits is a runtime setting and is left out.
\<close>

definition digit_val :: "char \<Rightarrow> int" where
  "digit_val c = int (of_char c) - 48"

definition py_int :: "string \<Rightarrow> error + int" where
  "py_int s =
     (if s \<noteq> [] \<and> list_all isdecimal_char s
      then Inr (foldl (\<lambda>acc c. 10 * acc + digit_val c) 0 s)
      else Inl ValueError)"

text \<open>\<open>xs[i]\<close>: a negative index counts from the end, an index out of range raises.\<close>

definition py_index :: "'a list \<Rightarrow> int \<Rightarrow> error + 'a" where
  "py_index xs i =
     (if 0 \<le> i \<and> i < int (length xs) then Inr (xs ! nat i)
      else if i < 0 \<and> - int (length xs) \<le> i then Inr (xs ! nat (int (length xs) + i))
      else Inl IndexError)"

text \<open>\<open>sep.join(xs)\<close>.\<close>

fun str_join :: "string \<Rightarrow> string list \<Rightarrow> string" where
  "str_join sep [] = []"
| "str_join sep [x] = x"
| "str_join sep (x # y # ys) = x @ sep @ str_join sep (y # ys)"

text \<open>
  The values that reach the routing fields of a Message: \<open>None\<close>, a string, a class
  (with its qualified name), an instance (with the qualified name of its class) and a set
  of such values (given by its elements).
\<close>

datatype pyval = PyNone | PyStr string | PyType string | PyObj string | PySet "pyval list"

fun truthy :: "pyval \<Rightarrow> bool" where
  "truthy PyNone = False"
| "truthy (PyStr s) = (s \<noteq> [])"
| "truthy (PyType n) = True"
| "truthy (PyObj n) = True"
| "truthy (PySet xs) = (xs \<noteq> [])"

text \<open>
  Modelled from the spec: \<open>metagpt.utils.common.any_to_str\<close> and \<open>any_to_str_set\<close> are
  imported by \<open>schema.py\<close> but are not among the sources. The spec calls them the
  "runtime type normalization of routing fields": a string stays as it is, a class or an
  instance is replaced by the name of the class, and \<open>any_to_str_set\<close> does this to every
  element of a collection and wraps a single value into a one-element set.
\<close>

fun any_to_str :: "pyval \<Rightarrow> string" where
  "any_to_str (PyStr s) = s"
| "any_to_str (PyType n) = n"
| "any_to_str (PyObj n) = n"
| "any_to_str PyNone = ''builtins.NoneType''"
| "any_to_str (PySet xs) = ''builtins.set''"

fun any_to_str_set :: "pyval \<Rightarrow> string set" where
  "any_to_str_set (PySet xs) = set (map any_to_str xs)"
| "any_to_str_set v = {any_to_str v}"

section \<open>Message (schema.py)\<close>

text \<open>
  Modelled from the spec: the constants of \<open>metagpt.const\<close> and the class
  \<open>UserRequirement\<close> are not among the sources. \<open>MESSAGE_ROUTE_TO_ALL\<close> is the reserved
  broadcast wildcard, \<open>USER_REQUIREMENT\<close> the name of the sentinel "user requirement"
  action kind every causal chain starts from.
\<close>

definition MESSAGE_ROUTE_TO_ALL :: string where
  "MESSAGE_ROUTE_TO_ALL = ''<all>''"

definition USER_REQUIREMENT :: string where
  "USER_REQUIREMENT = ''metagpt.actions.add_requirement.UserRequirement''"

text \<open>
  The fields of \<open>Message\<close>; \<open>'ic\<close> is the type of the structured payload
  (\<open>instruct_content\<close>, a pydantic model). Two Messages are equal when all fields are.
\<close>

record 'ic Message =
  msg_id :: string
  content :: string
  instruct_content :: "'ic option"
  role :: string
  cause_by :: string
  sent_from :: string
  send_to :: "string set"

text \<open>
  The keyword arguments of \<open>Message(...)\<close>. \<open>no_args\<close> holds the declared defaults, so
  an argument that is not passed keeps the value it has there.
\<close>

record 'ic MessageArgs =
  a_id :: string
  a_content :: string
  a_instruct_content :: "'ic option"
  a_role :: string
  a_cause_by :: pyval
  a_sent_from :: pyval
  a_send_to :: pyval

definition no_args :: "'ic MessageArgs" where
  "no_args =
     \<lparr>a_id = '''', a_content = '''', a_instruct_content = None, a_role = ''user'',
      a_cause_by = PyStr '''', a_sent_from = PyStr '''',
      a_send_to = PySet [PyStr MESSAGE_ROUTE_TO_ALL]\<rparr>"

text \<open>
  The field validators run before the fields are stored, on defaults too. \<open>check_id\<close>
  takes the fresh identifier \<open>uuid.uuid4().hex\<close> as the parameter \<open>uid\<close>.
\<close>

definition check_id :: "string \<Rightarrow> string \<Rightarrow> string" where
  "check_id uid i = (if i \<noteq> [] then i else uid)"

definition check_cause_by :: "pyval \<Rightarrow> string" where
  "check_cause_by v = any_to_str (if truthy v then v else PyType USER_REQUIREMENT)"

definition check_sent_from :: "pyval \<Rightarrow> string" where
  "check_sent_from v = any_to_str (if truthy v then v else PyStr '''')"

definition check_send_to :: "pyval \<Rightarrow> string set" where
  "check_send_to v =
     any_to_str_set (if truthy v then v else PySet [PyStr MESSAGE_ROUTE_TO_ALL])"

definition Message_init :: "string \<Rightarrow> 'ic MessageArgs \<Rightarrow> 'ic Message" where
  "Message_init uid a =
     \<lparr>msg_id = check_id uid (a_id a),
      content = a_content a,
      instruct_content = a_instruct_content a,
      role = a_role a,
      cause_by = check_cause_by (a_cause_by a),
      sent_from = check_sent_from (a_sent_from a),
      send_to = check_send_to (a_send_to a)\<rparr>"

text \<open>
  \<open>Message.__setattr__\<close> on the three routing keys: the value is normalised and stored.
  No validator runs on assignment.
\<close>

definition setattr_cause_by :: "'ic Message \<Rightarrow> pyval \<Rightarrow> 'ic Message" where
  "setattr_cause_by m v = m\<lparr>cause_by := any_to_str v\<rparr>"

definition setattr_sent_from :: "'ic Message \<Rightarrow> pyval \<Rightarrow> 'ic Message" where
  "setattr_sent_from m v = m\<lparr>sent_from := any_to_str v\<rparr>"

definition setattr_send_to :: "'ic Message \<Rightarrow> pyval \<Rightarrow> 'ic Message" where
  "setattr_send_to m v = m\<lparr>send_to := any_to_str_set v\<rparr>"

section \<open>Memory\<close>

text \<open>
  Modelled from the spec: the class \<open>metagpt.memory.Memory\<close> is not among the sources.
  The spec describes it as an ordered, append-only sequence of Messages: \<open>add\<close> is a
  no-op if an identical Message is already stored and appends otherwise, \<open>get\<close> is the
  full ordered snapshot, \<open>get_by_actions\<close> the ordered subsequence whose \<open>cause_by\<close> is
  among the given kinds, and \<open>remember\<close> keeps of the observed Messages those not yet
  stored (the news).
\<close>

record 'ic Memory =
  storage :: "'ic Message list"

definition Memory_add :: "'ic Memory \<Rightarrow> 'ic Message \<Rightarrow> 'ic Memory" where
  "Memory_add mem m =
     (if m \<in> set (storage mem) then mem else mem\<lparr>storage := storage mem @ [m]\<rparr>)"

definition Memory_get :: "'ic Memory \<Rightarrow> 'ic Message list" where
  "Memory_get mem = storage mem"

definition Memory_get_by_actions :: "'ic Memory \<Rightarrow> string set \<Rightarrow> 'ic Message list" where
  "Memory_get_by_actions mem kinds = filter (\<lambda>m. cause_by m \<in> kinds) (storage mem)"

definition Memory_remember :: "'ic Memory \<Rightarrow> 'ic Message list \<Rightarrow> 'ic Message list" where
  "Memory_remember mem observed = filter (\<lambda>m. m \<notin> set (Memory_get mem)) observed"

section \<open>Role (roles/role.py)\<close>

text \<open>
  An Action is an external collaborator. The Role needs its runtime type (the qualified
  class name, which is what \<open>type(todo)\<close> is normalised to) and its printed form; running
  it is the parameter \<open>exec\<close> of \<open>act\<close> below, which may raise. An Action returns plain
  text or an \<open>ActionOutput\<close> with a content and a structured payload.
\<close>

record Action =
  action_type :: string
  action_repr :: string

datatype 'ic ActionResult = PlainText string | ActionOutput string "'ic option"

text \<open>
  Modelled from the spec: the class \<open>Environment\<close> is not among the sources. A Role uses
  its global Memory and \<open>publish_message\<close>, which appends the Message to that Memory. The
  registry of Roles plays no part in a single Role's turn and is left out, so the
  Environment a Role holds is threaded through the Role's own state.
\<close>

record 'ic Environment =
  env_memory :: "'ic Memory"

definition publish_message :: "'ic Environment \<Rightarrow> 'ic Message \<Rightarrow> 'ic Environment" where
  "publish_message e m = e\<lparr>env_memory := Memory_add (env_memory e) m\<rparr>"

record RoleSetting =
  name :: string
  profile :: string
  goal :: string
  constraints :: string
  desc :: string

text \<open>
  \<open>RoleContext\<close>. The long-term memory is switched on by a configuration flag that is
  off by default; it is left out. \<open>watch\<close> holds the names of the watched Action kinds.
\<close>

record 'ic RoleContext =
  env :: "'ic Environment option"
  memory :: "'ic Memory"
  state :: int
  todo :: "Action option"
  watch :: "string set"
  news :: "'ic Message list"

record 'ic Role =
  setting :: RoleSetting
  states :: "string list"
  actions :: "Action list"
  rc :: "'ic RoleContext"

definition important_memory :: "'ic RoleContext \<Rightarrow> 'ic Message list" where
  "important_memory c = Memory_get_by_actions (memory c) (watch c)"

definition history :: "'ic RoleContext \<Rightarrow> 'ic Message list" where
  "history c = Memory_get (memory c)"

definition get_prefix :: "'ic Role \<Rightarrow> string" where
  "get_prefix r =
     (if desc (setting r) \<noteq> [] then desc (setting r)
      else ''You are a '' @ profile (setting r) @ '', named '' @ name (setting r)
           @ '', your goal is '' @ goal (setting r) @ '', and the constraint is ''
           @ constraints (setting r) @ ''. '')"

text \<open>
  \<open>_set_state\<close>: the state is stored first, then the Action at that index is looked up.
\<close>

definition set_state :: "'ic Role \<Rightarrow> int \<Rightarrow> error + 'ic Role" where
  "set_state r st =
     (let c = (rc r)\<lparr>state := st\<rparr>
      in case py_index (actions r) (state c) of
           Inl e \<Rightarrow> Inl e
         | Inr a \<Rightarrow> Inr (r\<lparr>rc := c\<lparr>todo := Some a\<rparr>\<rparr>))"

text \<open>
  The decision procedure (\<open>self._llm.aask\<close>) is the parameter \<open>llm\<close>. The prompt it
  receives is kept as the values the template is filled with, not as rendered text.
\<close>

record 'ic Prompt =
  p_prefix :: string
  p_history :: "'ic Message list"
  p_states :: "string list"
  p_n_states :: int

definition state_prompt :: "'ic Role \<Rightarrow> 'ic Prompt" where
  "state_prompt r =
     \<lparr>p_prefix = get_prefix r, p_history = history (rc r), p_states = states r,
      p_n_states = int (length (states r)) - 1\<rparr>"

definition in_range :: "int \<Rightarrow> nat \<Rightarrow> bool" where
  "in_range v n = (0 \<le> v \<and> v < int n)"

text \<open>
  \<open>_think\<close>. The condition \<open>not s.isdigit() or int(s) not in range(...)\<close> evaluates
  \<open>int(s)\<close> only when \<open>isdigit()\<close> holds, and an exception raised there leaves
  \<open>_think\<close>. \<open>checked_state\<close> is the value of \<open>next_state\<close> after the \<open>if\<close>.
\<close>

definition checked_state :: "string \<Rightarrow> nat \<Rightarrow> error + string" where
  "checked_state next_state n =
     (if \<not> str_isdigit next_state then Inr ''0''
      else case py_int next_state of
             Inl e \<Rightarrow> Inl e
           | Inr v \<Rightarrow> if \<not> in_range v n then Inr ''0'' else Inr next_state)"

definition think :: "('ic Prompt \<Rightarrow> string) \<Rightarrow> 'ic Role \<Rightarrow> error + 'ic Role" where
  "think llm r =
     (if length (actions r) = 1 then set_state r 0
      else case checked_state (llm (state_prompt r)) (length (states r)) of
             Inl e \<Rightarrow> Inl e
           | Inr next_state \<Rightarrow>
               (case py_int next_state of
                  Inl e \<Rightarrow> Inl e
                | Inr v \<Rightarrow> set_state r v))"

text \<open>
  \<open>_act\<close>. \<open>uid\<close> is the fresh identifier the new Message gets. Without a \<open>todo\<close> the
  call \<open>self._rc.todo.run\<close> fails on \<open>None\<close>.
\<close>

definition act_message :: "string \<Rightarrow> 'ic Role \<Rightarrow> Action \<Rightarrow> 'ic ActionResult \<Rightarrow> 'ic Message" where
  "act_message uid r a response =
     (case response of
        ActionOutput c ic \<Rightarrow>
          Message_init uid
            (no_args\<lparr>a_content := c, a_instruct_content := ic,
               a_role := profile (setting r), a_cause_by := PyType (action_type a)\<rparr>)
      | PlainText c \<Rightarrow>
          Message_init uid
            (no_args\<lparr>a_content := c, a_role := profile (setting r),
               a_cause_by := PyType (action_type a)\<rparr>))"

definition act ::
  "(Action \<Rightarrow> 'ic Message list \<Rightarrow> error + 'ic ActionResult) \<Rightarrow> string \<Rightarrow> 'ic Role
     \<Rightarrow> error + ('ic Role \<times> 'ic Message)" where
  "act exec uid r =
     (case todo (rc r) of
        None \<Rightarrow> Inl AttributeError
      | Some a \<Rightarrow>
          (case exec a (important_memory (rc r)) of
             Inl e \<Rightarrow> Inl e
           | Inr response \<Rightarrow>
               (let msg = act_message uid r a response
                in Inr (r\<lparr>rc := (rc r)\<lparr>memory := Memory_add (memory (rc r)) msg\<rparr>\<rparr>, msg))))"

definition recv :: "'ic Role \<Rightarrow> 'ic Message \<Rightarrow> 'ic Role" where
  "recv r message =
     (if message \<in> set (Memory_get (memory (rc r))) then r
      else r\<lparr>rc := (rc r)\<lparr>memory := Memory_add (memory (rc r)) message\<rparr>\<rparr>)"

text \<open>
  \<open>_observe\<close> returns the number of news; the Role it leaves behind is the first
  component.
\<close>

definition observe :: "'ic Role \<Rightarrow> 'ic Role \<times> nat" where
  "observe r =
     (case env (rc r) of
        None \<Rightarrow> (r, 0)
      | Some e \<Rightarrow>
          (let env_msgs = Memory_get (env_memory e);
               observed = Memory_get_by_actions (env_memory e) (watch (rc r));
               r1 = r\<lparr>rc := (rc r)\<lparr>news := Memory_remember (memory (rc r)) observed\<rparr>\<rparr>;
               r2 = foldl recv r1 env_msgs
           in (r2, length (news (rc r2)))))"

definition role_publish_message :: "'ic Role \<Rightarrow> 'ic Message \<Rightarrow> 'ic Role" where
  "role_publish_message r msg =
     (case env (rc r) of
        None \<Rightarrow> r
      | Some e \<Rightarrow> r\<lparr>rc := (rc r)\<lparr>env := Some (publish_message e msg)\<rparr>\<rparr>)"

definition react ::
  "('ic Prompt \<Rightarrow> string) \<Rightarrow> (Action \<Rightarrow> 'ic Message list \<Rightarrow> error + 'ic ActionResult)
     \<Rightarrow> string \<Rightarrow> 'ic Role \<Rightarrow> error + ('ic Role \<times> 'ic Message)" where
  "react llm exec uid r =
     (case think llm r of Inl e \<Rightarrow> Inl e | Inr r1 \<Rightarrow> act exec uid r1)"

text \<open>
  The argument of \<open>run\<close>: nothing, a string, a Message or a list of strings. \<open>uid_in\<close>
  is the fresh identifier of a Message built from the argument, \<open>uid_out\<close> the one of the
  reply. The result carries the reply, or \<open>None\<close> when \<open>run\<close> returns nothing.
\<close>

datatype 'ic RunArg = NoMessage | StrMessage string | OneMessage "'ic Message"
  | ListMessage "string list"

fun arg_truthy :: "'ic RunArg \<Rightarrow> bool" where
  "arg_truthy NoMessage = False"
| "arg_truthy (StrMessage s) = (s \<noteq> [])"
| "arg_truthy (OneMessage m) = True"
| "arg_truthy (ListMessage xs) = (xs \<noteq> [])"

fun fold_in :: "string \<Rightarrow> 'ic Role \<Rightarrow> 'ic RunArg \<Rightarrow> 'ic Role" where
  "fold_in uid r NoMessage = r"
| "fold_in uid r (StrMessage s) = recv r (Message_init uid (no_args\<lparr>a_content := s\<rparr>))"
| "fold_in uid r (OneMessage m) = recv r m"
| "fold_in uid r (ListMessage xs) =
     recv r (Message_init uid (no_args\<lparr>a_content := str_join [CHR 0x0A] xs\<rparr>))"

definition finish_run ::
  "('ic Prompt \<Rightarrow> string) \<Rightarrow> (Action \<Rightarrow> 'ic Message list \<Rightarrow> error + 'ic ActionResult)
     \<Rightarrow> string \<Rightarrow> 'ic Role \<Rightarrow> error + ('ic Role \<times> 'ic Message option)" where
  "finish_run llm exec uid_out r =
     (case react llm exec uid_out r of
        Inl e \<Rightarrow> Inl e
      | Inr (r1, rsp) \<Rightarrow> Inr (role_publish_message r1 rsp, Some rsp))"

definition run ::
  "('ic Prompt \<Rightarrow> string) \<Rightarrow> (Action \<Rightarrow> 'ic Message list \<Rightarrow> error + 'ic ActionResult)
     \<Rightarrow> string \<Rightarrow> string \<Rightarrow> 'ic Role \<Rightarrow> 'ic RunArg
     \<Rightarrow> error + ('ic Role \<times> 'ic Message option)" where
  "run llm exec uid_in uid_out r message =
     (if arg_truthy message then finish_run llm exec uid_out (fold_in uid_in r message)
      else (let (r1, n) = observe r
            in if n = 0 then Inr (r1, None) else finish_run llm exec uid_out r1))"

section \<open>Review Gate (actions/ask_review.py)\<close>

definition TASK_REVIEW_TRIGGER :: string where
  "TASK_REVIEW_TRIGGER = ''task''"

definition CODE_REVIEW_TRIGGER :: string where
  "CODE_REVIEW_TRIGGER = ''code''"

definition CONTINUE_WORD :: "string list" where
  "CONTINUE_WORD = [''confirm'', ''continue'', ''c'', ''yes'', ''y'']"

definition CHANGE_WORD :: "string list" where
  "CHANGE_WORD = [''change'']"

definition EXIT_WORD :: "string list" where
  "EXIT_WORD = [''exit'']"

definition TASK_REVIEW_INSTRUCTION :: string where
  "TASK_REVIEW_INSTRUCTION =
     ''If you want to change, add, delete a task or merge tasks in the plan, say '' @ [CHR 0x27]
     @ hd CHANGE_WORD @ '' task task_id or current task, ... (things to change)'' @ [CHR 0x27]
     @ '' If you confirm the output from the current task and wish to continue, type: ''
     @ hd CONTINUE_WORD"

definition CODE_REVIEW_INSTRUCTION :: string where
  "CODE_REVIEW_INSTRUCTION =
     ''If you want the codes to be rewritten, say '' @ [CHR 0x27] @ hd CHANGE_WORD
     @ '' ... (your change advice)'' @ [CHR 0x27]
     @ '' If you want to leave it as is, type: '' @ hd CONTINUE_WORD @ '' or ''
     @ CONTINUE_WORD ! 1"

definition EXIT_INSTRUCTION :: string where
  "EXIT_INSTRUCTION = ''If you want to terminate the process, type: '' @ hd EXIT_WORD"

text \<open>
  \<open>context[-1].cause_by if context and context[-1].cause_by else ""\<close>: the element is
  read only behind the test that the list is not empty.
\<close>

definition latest_action :: "'ic Message list \<Rightarrow> error + string" where
  "latest_action ctxt =
     (if ctxt \<noteq> [] then
        (case py_index ctxt (- 1) of
           Inl e \<Rightarrow> Inl e
         | Inr m \<Rightarrow> if cause_by m \<noteq> [] then Inr (cause_by m) else Inr '''')
      else Inr '''')"

definition review_prompt :: "string \<Rightarrow> string \<Rightarrow> string" where
  "review_prompt trigger la =
     ''This is a <'' @ trigger @ ''> review. Please review output from '' @ la @ [CHR 0x0A]
     @ (if trigger = TASK_REVIEW_TRIGGER then TASK_REVIEW_INSTRUCTION
        else CODE_REVIEW_INSTRUCTION) @ [CHR 0x0A]
     @ EXIT_INSTRUCTION @ [CHR 0x0A]
     @ ''Please type your review below:'' @ [CHR 0x0A]"

text \<open>
  What happens once the operator's line \<open>rsp\<close> is read: \<open>exit()\<close> ends the process,
  otherwise the line and the flag are returned.
\<close>

datatype review_outcome = ProcessExit | Returned string bool

definition review_decision :: "string \<Rightarrow> review_outcome" where
  "review_decision rsp =
     (if str_lower rsp \<in> set EXIT_WORD then ProcessExit
      else Returned rsp
             (str_lower rsp \<in> set CONTINUE_WORD \<or> sublist (hd CONTINUE_WORD) (str_lower rsp)))"

text \<open>
  \<open>AskReview.run\<close>. The operator is the parameter \<open>inp\<close>, from the prompt shown to the
  line typed. The plan is only written to the log, which is not modelled.
\<close>

definition AskReview_run ::
  "(string \<Rightarrow> string) \<Rightarrow> 'ic Message list \<Rightarrow> string \<Rightarrow> error + review_outcome" where
  "AskReview_run inp ctxt trigger =
     (case latest_action ctxt of
        Inl e \<Rightarrow> Inl e
      | Inr la \<Rightarrow> Inr (review_decision (inp (review_prompt trigger la))))"

section \<open>Sample data\<close>

text \<open>Concrete Actions, Roles and Messages on which the theorems below are applied.\<close>

definition act_a :: Action where
  "act_a = \<lparr>action_type = ''metagpt.actions.write_prd.WritePRD'', action_repr = ''WritePRD''\<rparr>"

definition act_b :: Action where
  "act_b =
     \<lparr>action_type = ''metagpt.actions.design_api.WriteDesign'', action_repr = ''WriteDesign''\<rparr>"

definition act_c :: Action where
  "act_c = \<lparr>action_type = ''metagpt.actions.write_code.WriteCode'', action_repr = ''WriteCode''\<rparr>"

definition alice :: RoleSetting where
  "alice =
     \<lparr>name = ''Alice'', profile = ''Product Manager'', goal = ''create a new product'',
      constraints = ''limited resources'', desc = ''''\<rparr>"

definition fresh_rc :: "unit RoleContext" where
  "fresh_rc =
     \<lparr>env = None, memory = \<lparr>storage = []\<rparr>, state = 0, todo = None, watch = {}, news = []\<rparr>"

definition solo_role :: "unit Role" where
  "solo_role = \<lparr>setting = alice, states = [''0. WritePRD''], actions = [act_a], rc = fresh_rc\<rparr>"

definition trio_role :: "unit Role" where
  "trio_role =
     \<lparr>setting = alice, states = [''0. WritePRD'', ''1. WriteDesign'', ''2. WriteCode''],
      actions = [act_a, act_b, act_c], rc = fresh_rc\<rparr>"

definition msg_x :: "unit Message" where
  "msg_x = Message_init ''m1'' (no_args\<lparr>a_content := ''x'', a_cause_by := PyStr ''K''\<rparr>)"

definition done_exec :: "Action \<Rightarrow> unit Message list \<Rightarrow> error + unit ActionResult" where
  "done_exec a ctxt = Inr (PlainText ''done'')"

definition listening_role :: "unit Role" where
  "listening_role =
     solo_role\<lparr>rc := fresh_rc\<lparr>env := Some \<lparr>env_memory = \<lparr>storage = [msg_x]\<rparr>\<rparr>\<rparr>\<rparr>"

definition informed_role :: "unit Role" where
  "informed_role = solo_role\<lparr>rc := fresh_rc\<lparr>memory := \<lparr>storage = [msg_x]\<rparr>\<rparr>\<rparr>"

definition ready_role :: "unit Role" where
  "ready_role = solo_role\<lparr>rc := fresh_rc\<lparr>todo := Some act_a\<rparr>\<rparr>"

section \<open>State selection\<close>

lemma py_index_valid:
  "0 \<le> i \<Longrightarrow> i < int (length xs) \<Longrightarrow> py_index xs i = Inr (xs ! nat i)"
  by (simp add: py_index_def)

lemma py_index_nonneg_Inr:
  assumes "py_index xs i = Inr a" and "0 \<le> i"
  shows "i < int (length xs) \<and> a = xs ! nat i"
  using assms by (auto simp: py_index_def Let_def split: if_splits)

lemma set_state_Inr:
  assumes "set_state r i = Inr r'"
  shows "state (rc r') = i \<and> actions r' = actions r \<and> states r' = states r
         \<and> py_index (actions r) i = Inr (the (todo (rc r')))  \<and> todo (rc r') \<noteq> None"
  using assms by (auto simp: set_state_def Let_def split: sum.splits)

lemma py_int_nonneg_aux:
  "0 \<le> acc \<Longrightarrow> list_all isdecimal_char s
     \<Longrightarrow> 0 \<le> foldl (\<lambda>acc c. 10 * acc + digit_val c) acc s"
proof (induction s arbitrary: acc)
  case Nil
  then show ?case by simp
next
  case (Cons c s)
  from Cons.prems have "0 \<le> digit_val c"
    by (simp add: isdecimal_char_def digit_val_def)
  with Cons.prems have "0 \<le> 10 * acc + digit_val c" by simp
  with Cons show ?case by simp
qed

lemma py_int_nonneg: "py_int s = Inr v \<Longrightarrow> 0 \<le> v"
  using py_int_nonneg_aux [of 0 s] by (auto simp: py_int_def split: if_splits)

lemma py_int_zero: "py_int ''0'' = Inr 0"
  by (simp add: py_int_def isdecimal_char_def digit_val_def)

lemma think_Inr_nonneg:
  assumes "think llm r = Inr r'"
  shows "0 \<le> state (rc r')"
proof (cases "length (actions r) = 1")
  case True
  with assms have "set_state r 0 = Inr r'" by (simp add: think_def)
  then show ?thesis using set_state_Inr by fastforce
next
  case False
  with assms obtain ns v where "py_int ns = Inr v" and "set_state r v = Inr r'"
    by (auto simp: think_def split: sum.splits)
  then show ?thesis using set_state_Inr py_int_nonneg by fastforce
qed

lemma think_Inr_set_state:
  assumes "think llm r = Inr r'"
  shows "set_state r (state (rc r')) = Inr r'"
proof (cases "length (actions r) = 1")
  case True
  with assms have s: "set_state r 0 = Inr r'" by (simp add: think_def)
  then have "state (rc r') = 0" using set_state_Inr by fastforce
  with s show ?thesis by simp
next
  case False
  with assms obtain ns v where "py_int ns = Inr v" and s: "set_state r v = Inr r'"
    by (auto simp: think_def split: sum.splits)
  then have "state (rc r') = v" using set_state_Inr by fastforce
  with s show ?thesis by simp
qed

text \<open>
  C9: after \<open>_set_state(i)\<close> with \<open>0 \<le> i < len(actions)\<close> the state is \<open>i\<close> and the todo
  is the Action stored at that index; and whenever \<open>_think\<close> completes, the state is a
  valid index and the todo is the Action stored at index state.
\<close>

theorem state_todo_agree:
  "(0 \<le> i \<and> i < int (length (actions r)) \<longrightarrow>
      (\<exists>r'. set_state r i = Inr r' \<and> state (rc r') = i
            \<and> todo (rc r') = Some (actions r' ! nat (state (rc r')))))
   \<and> (think llm r = Inr r2 \<longrightarrow>
        0 \<le> state (rc r2) \<and> state (rc r2) < int (length (actions r2))
        \<and> todo (rc r2) = Some (actions r2 ! nat (state (rc r2))))"
proof (intro conjI impI)
  assume "0 \<le> i \<and> i < int (length (actions r))"
  then show "\<exists>r'. set_state r i = Inr r' \<and> state (rc r') = i
            \<and> todo (rc r') = Some (actions r' ! nat (state (rc r')))"
    by (simp add: set_state_def py_index_valid)
next
  assume t: "think llm r = Inr r2"
  then show "0 \<le> state (rc r2)" by (rule think_Inr_nonneg)
  from t have s: "set_state r (state (rc r2)) = Inr r2" by (rule think_Inr_set_state)
  have n: "0 \<le> state (rc r2)" using t by (rule think_Inr_nonneg)
  from set_state_Inr [OF s] have p: "py_index (actions r) (state (rc r2)) = Inr (the (todo (rc r2)))"
    and a: "actions r2 = actions r" and td: "todo (rc r2) \<noteq> None" by simp_all
  from py_index_nonneg_Inr [OF p n] a
  show "state (rc r2) < int (length (actions r2))" by simp
  from py_index_nonneg_Inr [OF p n] a td
  show "todo (rc r2) = Some (actions r2 ! nat (state (rc r2)))" by auto
qed

theorem state_todo_agree_witness:
  "(0 \<le> (1::int) \<and> 1 < int (length (actions trio_role)))
   \<and> set_state trio_role 1 = Inr (trio_role\<lparr>rc := fresh_rc\<lparr>state := 1, todo := Some act_b\<rparr>\<rparr>)
   \<and> think (\<lambda>p. ''2'') trio_role = Inr (trio_role\<lparr>rc := fresh_rc\<lparr>state := 2, todo := Some act_c\<rparr>\<rparr>)
   \<and> todo (rc (trio_role\<lparr>rc := fresh_rc\<lparr>state := 2, todo := Some act_c\<rparr>\<rparr>))
       = Some (actions (trio_role\<lparr>rc := fresh_rc\<lparr>state := 2, todo := Some act_c\<rparr>\<rparr>) ! nat 2)"
proof -
  have h: "0 \<le> (1::int) \<and> 1 < int (length (actions trio_role))"
    by (simp add: trio_role_def)
  have s: "set_state trio_role 1 = Inr (trio_role\<lparr>rc := fresh_rc\<lparr>state := 1, todo := Some act_b\<rparr>\<rparr>)"
    by (simp add: set_state_def py_index_def trio_role_def)
  have t: "think (\<lambda>p. ''2'') trio_role
             = Inr (trio_role\<lparr>rc := fresh_rc\<lparr>state := 2, todo := Some act_c\<rparr>\<rparr>)"
    by (simp add: think_def checked_state_def str_isdigit_def isdigit_char_def
        isdecimal_char_def py_int_def digit_val_def in_range_def set_state_def py_index_def
        trio_role_def)
  from state_todo_agree [of 1 trio_role "\<lambda>p. ''2''"
      "trio_role\<lparr>rc := fresh_rc\<lparr>state := 2, todo := Some act_c\<rparr>\<rparr>"] h s t
  show ?thesis by simp
qed

text \<open>
  C6: a Role with exactly one Action selects state 0 whatever the decision procedure
  would answer; the result does not mention \<open>llm\<close>, which is not consulted.
\<close>

theorem think_single_action:
  assumes "length (actions r) = 1"
  shows "think llm r = Inr (r\<lparr>rc := (rc r)\<lparr>state := 0, todo := Some (actions r ! 0)\<rparr>\<rparr>)"
  using assms by (simp add: think_def set_state_def py_index_def)

theorem think_single_action_witness:
  "length (actions solo_role) = 1
   \<and> think (\<lambda>p. ''7'') solo_role = Inr (solo_role\<lparr>rc := fresh_rc\<lparr>state := 0, todo := Some act_a\<rparr>\<rparr>)
   \<and> think (\<lambda>p. ''not a number'') solo_role
       = Inr (solo_role\<lparr>rc := fresh_rc\<lparr>state := 0, todo := Some act_a\<rparr>\<rparr>)"
proof -
  have h: "length (actions solo_role) = 1" by (simp add: solo_role_def)
  from think_single_action [OF h, of "\<lambda>p. ''7''"]
       think_single_action [OF h, of "\<lambda>p. ''not a number''"] h
  show ?thesis by (simp add: solo_role_def)
qed

text \<open>
  Where the lenient fallback of \<open>_think\<close> works: with at least two Actions, as many state
  names as Actions, and a response that either fails \<open>isdigit()\<close> or consists of decimal
  characters only, \<open>_think\<close> completes, on the parsed integer when it is a valid index
  and on 0 otherwise.
\<close>

lemma think_lenient_fallback:
  assumes "2 \<le> length (actions r)" and "length (states r) = length (actions r)"
    and "\<not> str_isdigit s \<or> list_all isdecimal_char s"
  shows "\<exists>r'. think (\<lambda>p. s) r = Inr r'
           \<and> state (rc r') =
               (case py_int s of
                  Inr v \<Rightarrow> if in_range v (length (actions r)) then v else 0
                | Inl e \<Rightarrow> 0)"
proof -
  from assms(1) have ne: "actions r \<noteq> []" "length (actions r) \<noteq> 1" "0 < length (actions r)"
    by auto
  show ?thesis
  proof (cases "str_isdigit s")
  case False
  then have "py_int s = Inl ValueError"
    by (auto simp: py_int_def str_isdigit_def isdigit_char_def list_all_iff)
  with False ne show ?thesis
    by (simp add: think_def checked_state_def py_int_zero set_state_def py_index_def)
next
  case True
  with assms(3) have "s \<noteq> []" and "list_all isdecimal_char s"
    by (simp_all add: str_isdigit_def)
  then obtain v where v: "py_int s = Inr v" by (simp add: py_int_def)
  show ?thesis
  proof (cases "in_range v (length (actions r))")
    case True
    with v \<open>str_isdigit s\<close> ne assms(2) show ?thesis
      by (simp add: think_def checked_state_def set_state_def py_index_def in_range_def)
  next
    case False
    with v \<open>str_isdigit s\<close> ne assms(2) show ?thesis
      by (simp add: think_def checked_state_def py_int_zero set_state_def py_index_def)
  qed
  qed
qed

lemma think_seven_of_three:
  "think (\<lambda>p. ''7'') trio_role = Inr (trio_role\<lparr>rc := fresh_rc\<lparr>state := 0, todo := Some act_a\<rparr>\<rparr>)"
  by (simp add: think_def checked_state_def str_isdigit_def isdigit_char_def
      isdecimal_char_def py_int_def digit_val_def in_range_def set_state_def py_index_def
      trio_role_def)

text \<open>
  C4: the claim promises that no response makes \<open>_think\<close> raise. The response made of
  the superscript two (code point 0xB2) passes \<open>isdigit()\<close>, so \<open>int()\<close> is applied to
  it, and \<open>int()\<close> raises \<open>ValueError\<close>: \<open>_think\<close> of a Role with three Actions fails
  instead of falling back to state 0.
\<close>

theorem think_superscript_raises:
  "length (actions trio_role) = 3 \<and> str_isdigit [CHR 0xB2]
   \<and> think (\<lambda>p. [CHR 0xB2]) trio_role = Inl ValueError"
  by (simp add: think_def checked_state_def str_isdigit_def isdigit_char_def
      isdecimal_char_def py_int_def trio_role_def)

section \<open>Memory and recv\<close>

lemma recv_storage:
  "storage (memory (rc (recv r m)))
     = (if m \<in> set (storage (memory (rc r))) then storage (memory (rc r))
        else storage (memory (rc r)) @ [m])"
  by (simp add: recv_def Memory_get_def Memory_add_def)

lemma recv_known: "m \<in> set (storage (memory (rc r))) \<Longrightarrow> recv r m = r"
  by (simp add: recv_def Memory_get_def)

lemma recv_frame:
  "news (rc (recv r m)) = news (rc r) \<and> env (rc (recv r m)) = env (rc r)
   \<and> watch (rc (recv r m)) = watch (rc r) \<and> state (rc (recv r m)) = state (rc r)
   \<and> todo (rc (recv r m)) = todo (rc r) \<and> actions (recv r m) = actions r
   \<and> states (recv r m) = states r \<and> setting (recv r m) = setting r"
  by (simp add: recv_def)

lemma foldl_recv_news: "news (rc (foldl recv r ms)) = news (rc r)"
  by (induction ms arbitrary: r) (simp_all add: recv_frame)

lemma foldl_recv_prefix:
  "prefix (storage (memory (rc r))) (storage (memory (rc (foldl recv r ms))))"
proof (induction ms arbitrary: r)
  case Nil
  then show ?case by simp
next
  case (Cons m ms)
  have "prefix (storage (memory (rc r))) (storage (memory (rc (recv r m))))"
    by (simp add: recv_storage)
  also have "prefix \<dots> (storage (memory (rc (foldl recv (recv r m) ms))))"
    by (rule Cons.IH)
  finally show ?case by simp
qed

lemma foldl_recv_set:
  "set (storage (memory (rc (foldl recv r ms)))) = set (storage (memory (rc r))) \<union> set ms"
proof (induction ms arbitrary: r)
  case Nil
  then show ?case by simp
next
  case (Cons m ms)
  have "set (storage (memory (rc (recv r m)))) = insert m (set (storage (memory (rc r))))"
    by (auto simp: recv_storage)
  with Cons.IH [of "recv r m"] show ?case by auto
qed

lemma foldl_recv_known:
  "set ms \<subseteq> set (storage (memory (rc r))) \<Longrightarrow> foldl recv r ms = r"
  by (induction ms arbitrary: r) (simp_all add: recv_known)

lemma foldl_recv_length:
  "length (storage (memory (rc (foldl recv r ms)))) = length (storage (memory (rc r)))
     \<longleftrightarrow> set ms \<subseteq> set (storage (memory (rc r)))"
proof
  assume eq: "length (storage (memory (rc (foldl recv r ms)))) = length (storage (memory (rc r)))"
  have "prefix (storage (memory (rc r))) (storage (memory (rc (foldl recv r ms))))"
    by (rule foldl_recv_prefix)
  with eq have "storage (memory (rc (foldl recv r ms))) = storage (memory (rc r))"
    by (auto simp: prefix_def)
  then have "set (storage (memory (rc r))) \<union> set ms = set (storage (memory (rc r)))"
    using foldl_recv_set [of r ms] by simp
  then show "set ms \<subseteq> set (storage (memory (rc r)))" by blast
next
  assume "set ms \<subseteq> set (storage (memory (rc r)))"
  then show "length (storage (memory (rc (foldl recv r ms)))) = length (storage (memory (rc r)))"
    by (simp add: foldl_recv_known)
qed

lemma observe_attached:
  assumes "env (rc r) = Some e"
  shows "fst (observe r)
           = foldl recv
               (r\<lparr>rc := (rc r)\<lparr>news := Memory_remember (memory (rc r))
                    (Memory_get_by_actions (env_memory e) (watch (rc r)))\<rparr>\<rparr>)
               (storage (env_memory e))"
    and "snd (observe r)
           = length (Memory_remember (memory (rc r))
               (Memory_get_by_actions (env_memory e) (watch (rc r))))"
  using assms by (simp_all add: observe_def Let_def Memory_get_def foldl_recv_news)

text \<open>
  C1 (amended): for a Role with an attached Environment, \<open>run()\<close> without a message and
  with zero news returns no Message; the private memory keeps its content as a prefix and
  takes in every Environment Message it did not hold, so its size is unchanged exactly
  when all Environment Messages were already in it.
\<close>

theorem run_idle_keeps_and_absorbs:
  assumes "env (rc r) = Some e" and "snd (observe r) = 0"
  shows "run llm exec uid_in uid_out r NoMessage = Inr (fst (observe r), None)
         \<and> prefix (Memory_get (memory (rc r))) (Memory_get (memory (rc (fst (observe r)))))
         \<and> set (Memory_get (memory (rc (fst (observe r)))))
             = set (Memory_get (memory (rc r))) \<union> set (Memory_get (env_memory e))
         \<and> (length (Memory_get (memory (rc (fst (observe r))))) = length (Memory_get (memory (rc r)))
              \<longleftrightarrow> set (Memory_get (env_memory e)) \<subseteq> set (Memory_get (memory (rc r))))"
proof (intro conjI)
  show "run llm exec uid_in uid_out r NoMessage = Inr (fst (observe r), None)"
    using assms(2) by (cases "observe r") (simp add: run_def)
next
  show "prefix (Memory_get (memory (rc r))) (Memory_get (memory (rc (fst (observe r)))))"
    unfolding observe_attached(1) [OF assms(1)] Memory_get_def
    using foldl_recv_prefix
      [of "r\<lparr>rc := (rc r)\<lparr>news := Memory_remember (memory (rc r))
              (Memory_get_by_actions (env_memory e) (watch (rc r)))\<rparr>\<rparr>" "storage (env_memory e)"]
    by simp
next
  show "set (Memory_get (memory (rc (fst (observe r)))))
          = set (Memory_get (memory (rc r))) \<union> set (Memory_get (env_memory e))"
    unfolding observe_attached(1) [OF assms(1)] Memory_get_def
    by (simp add: foldl_recv_set)
next
  show "length (Memory_get (memory (rc (fst (observe r))))) = length (Memory_get (memory (rc r)))
          \<longleftrightarrow> set (Memory_get (env_memory e)) \<subseteq> set (Memory_get (memory (rc r)))"
    unfolding observe_attached(1) [OF assms(1)] Memory_get_def
    using foldl_recv_length
      [of "r\<lparr>rc := (rc r)\<lparr>news := Memory_remember (memory (rc r))
              (Memory_get_by_actions (env_memory e) (watch (rc r)))\<rparr>\<rparr>" "storage (env_memory e)"]
    by simp
qed

lemma observe_listening:
  "observe listening_role
     = (listening_role\<lparr>rc := (rc listening_role)\<lparr>memory := \<lparr>storage = [msg_x]\<rparr>\<rparr>\<rparr>, 0)"
  by (simp add: observe_def listening_role_def solo_role_def fresh_rc_def Memory_get_def
      Memory_get_by_actions_def Memory_remember_def recv_def Memory_add_def)

theorem run_idle_keeps_and_absorbs_witness:
  "env (rc listening_role) = Some \<lparr>env_memory = \<lparr>storage = [msg_x]\<rparr>\<rparr>
   \<and> snd (observe listening_role) = 0
   \<and> run (\<lambda>p. ''0'') done_exec ''u1'' ''u2'' listening_role NoMessage
       = Inr (listening_role\<lparr>rc := (rc listening_role)\<lparr>memory := \<lparr>storage = [msg_x]\<rparr>\<rparr>\<rparr>, None)
   \<and> set (Memory_get (memory (rc (fst (observe listening_role))))) = {msg_x}"
proof -
  have h1: "env (rc listening_role) = Some \<lparr>env_memory = \<lparr>storage = [msg_x]\<rparr>\<rparr>"
    by (simp add: listening_role_def fresh_rc_def)
  have h2: "snd (observe listening_role) = 0" by (simp add: observe_listening)
  from run_idle_keeps_and_absorbs [OF h1 h2, of "\<lambda>p. ''0''" done_exec "''u1''" "''u2''"]
  have r: "run (\<lambda>p. ''0'') done_exec ''u1'' ''u2'' listening_role NoMessage
             = Inr (fst (observe listening_role), None)"
    by (rule conjunct1)
  have m: "set (Memory_get (memory (rc (fst (observe listening_role))))) = {msg_x}"
    by (simp add: observe_listening Memory_get_def)
  from h1 h2 r m show ?thesis by (simp add: observe_listening)
qed

text \<open>
  C1 as stated fails: the Environment holds one Message of a kind the Role does not watch.
  Observation yields zero news and \<open>run()\<close> returns nothing, yet the private memory has
  grown from 0 to 1 Message.
\<close>

theorem run_idle_memory_grows:
  "env (rc listening_role) \<noteq> None
   \<and> snd (observe listening_role) = 0
   \<and> run (\<lambda>p. ''0'') done_exec ''u1'' ''u2'' listening_role NoMessage
       = Inr (fst (observe listening_role), None)
   \<and> length (Memory_get (memory (rc listening_role))) = 0
   \<and> length (Memory_get (memory (rc (fst (observe listening_role))))) = 1"
proof -
  have "env (rc listening_role) \<noteq> None"
    by (simp add: listening_role_def fresh_rc_def)
  moreover have "snd (observe listening_role) = 0"
    by (simp add: observe_listening)
  moreover have "run (\<lambda>p. ''0'') done_exec ''u1'' ''u2'' listening_role NoMessage
       = Inr (fst (observe listening_role), None)"
    by (simp add: run_def observe_listening)
  moreover have "length (Memory_get (memory (rc listening_role))) = 0"
    by (simp add: Memory_get_def listening_role_def fresh_rc_def)
  moreover have "length (Memory_get (memory (rc (fst (observe listening_role))))) = 1"
    by (simp add: observe_listening Memory_get_def)
  ultimately show ?thesis by blast
qed

text \<open>
  C7: \<open>recv\<close> of a Message the memory already contains leaves the Role, and with it the
  ordered content of the memory, unchanged; receiving the same Message twice is the same
  as receiving it once.
\<close>

theorem recv_duplicate_noop:
  "(m \<in> set (Memory_get (memory (rc r))) \<longrightarrow>
      recv r m = r \<and> Memory_get (memory (rc (recv r m))) = Memory_get (memory (rc r)))
   \<and> recv (recv r m) m = recv r m"
proof (intro conjI impI)
  assume "m \<in> set (Memory_get (memory (rc r)))"
  then show "recv r m = r" by (simp add: recv_def)
  then show "Memory_get (memory (rc (recv r m))) = Memory_get (memory (rc r))" by simp
next
  have "m \<in> set (storage (memory (rc (recv r m))))" by (simp add: recv_storage)
  then show "recv (recv r m) m = recv r m" by (rule recv_known)
qed

theorem recv_duplicate_noop_witness:
  "msg_x \<in> set (Memory_get (memory (rc informed_role)))
   \<and> recv informed_role msg_x = informed_role
   \<and> Memory_get (memory (rc (recv informed_role msg_x))) = [msg_x]
   \<and> Memory_get (memory (rc (recv (recv solo_role msg_x) msg_x))) = [msg_x]"
proof -
  have h: "msg_x \<in> set (Memory_get (memory (rc informed_role)))"
    by (simp add: informed_role_def Memory_get_def fresh_rc_def)
  have s: "Memory_get (memory (rc (recv solo_role msg_x))) = [msg_x]"
    by (simp add: recv_def Memory_get_def Memory_add_def solo_role_def fresh_rc_def)
  from recv_duplicate_noop [of msg_x informed_role] recv_duplicate_noop [of msg_x solo_role] h s
  show ?thesis by (simp add: informed_role_def Memory_get_def fresh_rc_def)
qed

section \<open>Messages\<close>

lemma any_to_str_set_truthy: "truthy v \<Longrightarrow> any_to_str_set v \<noteq> {}"
  by (cases v) simp_all

lemma check_send_to_nonempty: "check_send_to v \<noteq> {}"
  by (simp add: check_send_to_def any_to_str_set_truthy)

lemma check_send_to_default: "\<not> truthy v \<Longrightarrow> check_send_to v = {MESSAGE_ROUTE_TO_ALL}"
  by (simp add: check_send_to_def)

lemma Message_init_send_to:
  "send_to (Message_init uid a) \<noteq> {}
   \<and> send_to (Message_init uid (no_args :: 'ic MessageArgs)) = {MESSAGE_ROUTE_TO_ALL}"
proof
  show "send_to (Message_init uid a) \<noteq> {}"
    by (simp add: Message_init_def check_send_to_nonempty)
  show "send_to (Message_init uid (no_args :: 'ic MessageArgs)) = {MESSAGE_ROUTE_TO_ALL}"
    by (simp add: Message_init_def no_args_def check_send_to_def)
qed

lemma setattr_send_to_nonempty:
  "truthy v \<Longrightarrow> send_to (setattr_send_to m v) \<noteq> {}"
  by (simp add: setattr_send_to_def any_to_str_set_truthy)

text \<open>
  C8: a Message built without \<open>send_to\<close> is addressed to the broadcast wildcard, but
  assigning the empty set to \<open>send_to\<close> afterwards stores the empty set: the assignment
  normalises the value and does not fall back to the wildcard as the constructor does.
\<close>

theorem setattr_send_to_empties:
  "send_to (Message_init ''m1'' (no_args :: unit MessageArgs)) = {MESSAGE_ROUTE_TO_ALL}
   \<and> send_to (setattr_send_to (Message_init ''m1'' (no_args :: unit MessageArgs)) (PySet [])) = {}"
  by (simp add: Message_init_def no_args_def check_send_to_def setattr_send_to_def)

lemma act_message_fields:
  "msg_id (act_message uid r a response) = uid
   \<and> role (act_message uid r a response) = profile (setting r)
   \<and> cause_by (act_message uid r a response) = action_type a
   \<and> sent_from (act_message uid r a response) = ''''
   \<and> send_to (act_message uid r a response) = {MESSAGE_ROUTE_TO_ALL}
   \<and> content (act_message uid r a response)
       = (case response of PlainText c \<Rightarrow> c | ActionOutput c ic \<Rightarrow> c)"
  by (cases response)
     (simp_all add: act_message_def Message_init_def no_args_def check_id_def
        check_cause_by_def check_sent_from_def check_send_to_def)

text \<open>
  C2 (amended): when the todo Action returns a result, \<open>_act\<close> wraps it into a Message
  whose role is the Role's profile, whose \<open>cause_by\<close> is the runtime type of the Action,
  whose \<open>sent_from\<close> is empty and whose \<open>send_to\<close> is the broadcast wildcard; the
  Message, carrying a fresh identifier, is appended to the Role's private memory and
  returned.
\<close>

theorem act_wraps_result:
  assumes "todo (rc r) = Some a"
    and "exec a (important_memory (rc r)) = Inr response"
    and "uid \<notin> msg_id ` set (Memory_get (memory (rc r)))"
  shows "\<exists>r' msg. act exec uid r = Inr (r', msg)
           \<and> role msg = profile (setting r)
           \<and> cause_by msg = action_type a
           \<and> sent_from msg = ''''
           \<and> send_to msg = {MESSAGE_ROUTE_TO_ALL}
           \<and> content msg = (case response of PlainText c \<Rightarrow> c | ActionOutput c ic \<Rightarrow> c)
           \<and> Memory_get (memory (rc r')) = Memory_get (memory (rc r)) @ [msg]"
proof -
  let ?msg = "act_message uid r a response"
  have "msg_id ?msg = uid" by (simp add: act_message_fields)
  have fresh: "?msg \<notin> set (storage (memory (rc r)))"
  proof
    assume "?msg \<in> set (storage (memory (rc r)))"
    then have "msg_id ?msg \<in> msg_id ` set (storage (memory (rc r)))" by (rule imageI)
    with \<open>msg_id ?msg = uid\<close> assms(3) show False by (simp add: Memory_get_def)
  qed
  from assms(1,2) have
    "act exec uid r = Inr (r\<lparr>rc := (rc r)\<lparr>memory := Memory_add (memory (rc r)) ?msg\<rparr>\<rparr>, ?msg)"
    by (simp add: act_def Let_def)
  moreover from fresh have
    "Memory_get (memory (rc (r\<lparr>rc := (rc r)\<lparr>memory := Memory_add (memory (rc r)) ?msg\<rparr>\<rparr>)))
       = Memory_get (memory (rc r)) @ [?msg]"
    by (simp add: Memory_get_def Memory_add_def)
  ultimately show ?thesis using act_message_fields [of uid r a response] by blast
qed

lemma act_ready:
  "act done_exec ''u1'' ready_role
     = Inr (ready_role\<lparr>rc := (rc ready_role)
              \<lparr>memory := \<lparr>storage = [act_message ''u1'' ready_role act_a (PlainText ''done'')]\<rparr>\<rparr>\<rparr>,
            act_message ''u1'' ready_role act_a (PlainText ''done''))"
  by (simp add: act_def Let_def ready_role_def fresh_rc_def done_exec_def Memory_add_def)

theorem act_wraps_result_witness:
  "todo (rc ready_role) = Some act_a
   \<and> done_exec act_a (important_memory (rc ready_role)) = Inr (PlainText ''done'')
   \<and> ''u1'' \<notin> msg_id ` set (Memory_get (memory (rc ready_role)))
   \<and> act done_exec ''u1'' ready_role
       = Inr (ready_role\<lparr>rc := (rc ready_role)
                \<lparr>memory := \<lparr>storage = [act_message ''u1'' ready_role act_a (PlainText ''done'')]\<rparr>\<rparr>\<rparr>,
              act_message ''u1'' ready_role act_a (PlainText ''done''))
   \<and> act_message ''u1'' ready_role act_a (PlainText ''done'')
       = \<lparr>msg_id = ''u1'', content = ''done'', instruct_content = None,
          role = ''Product Manager'', cause_by = ''metagpt.actions.write_prd.WritePRD'',
          sent_from = '''', send_to = {''<all>''}\<rparr>"
proof -
  have h1: "todo (rc ready_role) = Some act_a" by (simp add: ready_role_def fresh_rc_def)
  have h2: "done_exec act_a (important_memory (rc ready_role)) = Inr (PlainText ''done'')"
    by (simp add: done_exec_def)
  have h3: "''u1'' \<notin> msg_id ` set (Memory_get (memory (rc ready_role)))"
    by (simp add: ready_role_def fresh_rc_def Memory_get_def)
  have m: "act_message ''u1'' ready_role act_a (PlainText ''done'')
       = \<lparr>msg_id = ''u1'', content = ''done'', instruct_content = None,
          role = ''Product Manager'', cause_by = ''metagpt.actions.write_prd.WritePRD'',
          sent_from = '''', send_to = {''<all>''}\<rparr>"
    by (simp add: act_message_def Message_init_def no_args_def check_id_def
        check_cause_by_def check_sent_from_def check_send_to_def MESSAGE_ROUTE_TO_ALL_def
        ready_role_def solo_role_def alice_def act_a_def)
  from act_wraps_result [of ready_role act_a done_exec "PlainText ''done''" "''u1''", OF h1 h2 h3]
       h1 h2 h3 m act_ready
  show ?thesis by blast
qed

text \<open>
  C2 as stated fails: the Role is named Alice, and the Message \<open>_act\<close> returns has an
  empty \<open>sent_from\<close>, not the name.
\<close>

theorem act_leaves_sender_empty:
  "name (setting ready_role) = ''Alice''
   \<and> act done_exec ''u1'' ready_role
       = Inr (ready_role\<lparr>rc := (rc ready_role)
                \<lparr>memory := \<lparr>storage = [act_message ''u1'' ready_role act_a (PlainText ''done'')]\<rparr>\<rparr>\<rparr>,
              act_message ''u1'' ready_role act_a (PlainText ''done''))
   \<and> sent_from (act_message ''u1'' ready_role act_a (PlainText ''done'')) = ''''"
proof -
  have "name (setting ready_role) = ''Alice''"
    by (simp add: ready_role_def solo_role_def alice_def)
  moreover have "sent_from (act_message ''u1'' ready_role act_a (PlainText ''done'')) = ''''"
    by (simp add: act_message_fields)
  ultimately show ?thesis using act_ready by blast
qed

section \<open>Review Gate\<close>

lemma latest_action_total: "\<exists>la. latest_action ctxt = Inr la"
  by (cases ctxt rule: rev_cases) (simp_all add: latest_action_def py_index_def)

lemma AskReview_run_decision:
  "AskReview_run (\<lambda>p. rsp) ctxt trigger = Inr (review_decision rsp)"
  using latest_action_total [of ctxt] by (auto simp: AskReview_run_def)

text \<open>
  C10: with an empty context list the last element is never read; the most recent
  caused-by action is the empty string, the prompt is built with it, and the gate goes on
  to read and classify the operator's input.
\<close>

theorem review_gate_empty_context:
  "latest_action ([] :: 'ic Message list) = Inr ''''
   \<and> AskReview_run inp ([] :: 'ic Message list) trigger
       = Inr (review_decision (inp (review_prompt trigger '''')))"
  by (simp add: latest_action_def AskReview_run_def)

text \<open>
  C3 (amended): the gate ends the process exactly when the operator's input, in lower
  case, is the word \<open>exit\<close>; on every other input it returns the input and the flag.
\<close>

theorem review_exit_exact:
  "(AskReview_run (\<lambda>p. rsp) ctxt trigger = Inr ProcessExit \<longleftrightarrow> str_lower rsp = ''exit'')
   \<and> (AskReview_run (\<lambda>p. rsp) ctxt trigger = Inr ProcessExit
        \<or> AskReview_run (\<lambda>p. rsp) ctxt trigger
            = Inr (Returned rsp (str_lower rsp \<in> set CONTINUE_WORD
                                  \<or> sublist ''confirm'' (str_lower rsp))))"
  by (simp add: AskReview_run_decision review_decision_def EXIT_WORD_def CONTINUE_WORD_def)

theorem review_exit_exact_witness:
  "AskReview_run (\<lambda>p. ''exit'') ([] :: unit Message list) ''task'' = Inr ProcessExit
   \<and> AskReview_run (\<lambda>p. ''EXIT'') ([] :: unit Message list) ''task'' = Inr ProcessExit
   \<and> AskReview_run (\<lambda>p. ''exit please'') ([] :: unit Message list) ''code'' \<noteq> Inr ProcessExit"
proof -
  have a: "str_lower ''exit'' = ''exit''" by code_simp
  have b: "str_lower ''EXIT'' = ''exit''" by code_simp
  have c: "str_lower ''exit please'' \<noteq> ''exit''" by code_simp
  from review_exit_exact [of "''exit''" "[] :: unit Message list" "''task''"]
       review_exit_exact [of "''EXIT''" "[] :: unit Message list" "''task''"]
       review_exit_exact [of "''exit please''" "[] :: unit Message list" "''code''"] a b c
  show ?thesis by blast
qed

text \<open>
  C3 as stated fails: the input \<open>please exit\<close> contains the exit token, and the gate
  returns it as a change request instead of ending the process.
\<close>

theorem review_exit_substring_returns:
  "sublist ''exit'' ''please exit''
   \<and> AskReview_run (\<lambda>p. ''please exit'') ([] :: unit Message list) ''task''
       = Inr (Returned ''please exit'' False)"
proof -
  have "sublist ''exit'' ''please exit''" by code_simp
  moreover have "review_decision ''please exit'' = Returned ''please exit'' False" by code_simp
  ultimately show ?thesis by (simp add: AskReview_run_decision)
qed

text \<open>
  C5 (amended): on every input that does not end the process the gate returns the raw
  input together with the flag, and the flag is true exactly when the input in lower case
  is one of the continue tokens or contains \<open>confirm\<close>.
\<close>

theorem review_confirmed_flag:
  assumes "str_lower rsp \<notin> set EXIT_WORD"
  shows "AskReview_run (\<lambda>p. rsp) ctxt trigger
           = Inr (Returned rsp (str_lower rsp \<in> set CONTINUE_WORD
                                 \<or> sublist ''confirm'' (str_lower rsp)))"
  using assms by (simp add: AskReview_run_decision review_decision_def CONTINUE_WORD_def)

theorem review_confirmed_flag_witness:
  "str_lower ''y'' \<notin> set EXIT_WORD
   \<and> str_lower ''change task 2 to add logging'' \<notin> set EXIT_WORD
   \<and> str_lower ''confirm but change task 3'' \<notin> set EXIT_WORD
   \<and> AskReview_run (\<lambda>p. ''y'') ([] :: unit Message list) ''task'' = Inr (Returned ''y'' True)
   \<and> AskReview_run (\<lambda>p. ''change task 2 to add logging'') ([] :: unit Message list) ''task''
       = Inr (Returned ''change task 2 to add logging'' False)
   \<and> AskReview_run (\<lambda>p. ''confirm but change task 3'') ([] :: unit Message list) ''task''
       = Inr (Returned ''confirm but change task 3'' True)"
proof -
  have h1: "str_lower ''y'' \<notin> set EXIT_WORD" by code_simp
  have h2: "str_lower ''change task 2 to add logging'' \<notin> set EXIT_WORD" by code_simp
  have h3: "str_lower ''confirm but change task 3'' \<notin> set EXIT_WORD" by code_simp
  have f1: "(str_lower ''y'' \<in> set CONTINUE_WORD \<or> sublist ''confirm'' (str_lower ''y'')) = True"
    by code_simp
  have f2: "(str_lower ''change task 2 to add logging'' \<in> set CONTINUE_WORD
             \<or> sublist ''confirm'' (str_lower ''change task 2 to add logging'')) = False"
    by code_simp
  have f3: "(str_lower ''confirm but change task 3'' \<in> set CONTINUE_WORD
             \<or> sublist ''confirm'' (str_lower ''confirm but change task 3'')) = True"
    by code_simp
  from review_confirmed_flag [OF h1, of "[] :: unit Message list" "''task''"]
       review_confirmed_flag [OF h2, of "[] :: unit Message list" "''task''"]
       review_confirmed_flag [OF h3, of "[] :: unit Message list" "''task''"]
       h1 h2 h3
  show ?thesis unfolding f1 f2 f3 by blast
qed

text \<open>
  C5 as stated fails: the input \<open>Y\<close> is not one of the continue tokens and does not
  contain \<open>confirm\<close>, yet the gate returns it as confirmed, since the tokens are
  compared with the input in lower case.
\<close>

theorem review_uppercase_confirms:
  "''Y'' \<notin> set CONTINUE_WORD \<and> \<not> sublist ''confirm'' ''Y''
   \<and> str_lower ''Y'' \<notin> set EXIT_WORD
   \<and> AskReview_run (\<lambda>p. ''Y'') ([] :: unit Message list) ''task'' = Inr (Returned ''Y'' True)"
proof -
  have "''Y'' \<notin> set CONTINUE_WORD" by (simp add: CONTINUE_WORD_def)
  moreover have "\<not> sublist ''confirm'' ''Y''" by code_simp
  moreover have "str_lower ''Y'' \<notin> set EXIT_WORD" by code_simp
  moreover have "review_decision ''Y'' = Returned ''Y'' True" by code_simp
  ultimately show ?thesis by (simp add: AskReview_run_decision)
qed

end
